theory Spec2Isabelle
  imports Main
begin

section \<open>Data model (database.py)\<close>

text \<open>
  The two tables of \<^verbatim>\<open>database.py\<close> and the request body of \<^verbatim>\<open>main.py\<close>.
  \<^verbatim>\<open>Todos(**todo_request.dict(), owner_id=...)\<close> copies the four fields of a
  \<^verbatim>\<open>TodoRequest\<close> into a row, so a row is the request extended by the primary key
  (column \<^verbatim>\<open>id\<close>, here \<open>todo_id\<close>) and the nullable foreign key \<^verbatim>\<open>owner_id\<close>.
  The \<^verbatim>\<open>Users\<close> column \<^verbatim>\<open>id\<close> is \<open>user_id\<close>.
\<close>

record TodoRequest =
  title :: string
  description :: string
  priority :: int
  complete :: bool

record Todos = TodoRequest +
  todo_id :: int
  owner_id :: "int option"

record Users =
  user_id :: int
  email :: string
  username :: string
  first_name :: string
  last_name :: string
  password :: string
  is_active :: bool
  role :: string
  phone_number :: string

text \<open>The session \<^verbatim>\<open>db\<close>: the rows of both tables, in the order a query returns them.\<close>

record database =
  users :: "Users list"
  todos :: "Todos list"

text \<open>\<^verbatim>\<open>Query.first()\<close>: the first row of the result, or \<^verbatim>\<open>None\<close>.\<close>

fun first :: "'a list \<Rightarrow> 'a option" where
  "first [] = None"
| "first (x # xs) = Some x"

section \<open>Errors and identities (main.py)\<close>

text \<open>\<^verbatim>\<open>HTTPException(status_code, detail)\<close>.\<close>

datatype http_error = HTTPException nat string

text \<open>
  The dict \<^verbatim>\<open>{"username": ..., "id": ..., "user_role": ...}\<close> that
  \<^verbatim>\<open>get_current_user\<close> returns. The role is read with \<^verbatim>\<open>payload.get("role")\<close> and
  is not checked, so it may be \<^verbatim>\<open>None\<close>.
\<close>

record identity =
  ident_username :: string
  ident_id :: int
  user_role :: "string option"

text \<open>
  The payload of a token: the keys \<^verbatim>\<open>sub\<close>, \<^verbatim>\<open>id\<close>, \<^verbatim>\<open>role\<close> and \<^verbatim>\<open>exp\<close>, each
  present or absent, typed as the annotations of \<^verbatim>\<open>get_current_user\<close> give them.
  Instants are whole seconds since the epoch, which is how the \<^verbatim>\<open>exp\<close> claim is stored.
\<close>

record claims =
  c_sub :: "string option"
  c_id :: "int option"
  c_role :: "string option"
  c_exp :: "int option"

section \<open>The libraries the code calls\<close>

text \<open>
  \<^verbatim>\<open>jose.jwt\<close> and \<^verbatim>\<open>passlib\<close>'s \<^verbatim>\<open>CryptContext\<close> are not code of this
  repository. They are parameters of the model: \<open>jwt_encode J payload key\<close> is
  \<^verbatim>\<open>jwt.encode(payload, key, algorithm="HS256")\<close>, and \<open>jwt_decode J token key now\<close> is
  \<^verbatim>\<open>jwt.decode(token, key, algorithms=["HS256"])\<close> called at the instant \<open>now\<close>, which
  returns the payload or raises a \<^verbatim>\<open>JWTError\<close> (\<^verbatim>\<open>ExpiredSignatureError\<close> and
  \<^verbatim>\<open>JWTClaimsError\<close> are subclasses of it).
\<close>

datatype jwt_error = JWTError | ExpiredSignatureError | JWTClaimsError

record jose =
  jwt_encode :: "claims \<Rightarrow> string \<Rightarrow> string"
  jwt_decode :: "string \<Rightarrow> string \<Rightarrow> int \<Rightarrow> jwt_error + claims"

text \<open>
  \<open>verify H plaintext digest\<close> is \<^verbatim>\<open>bcrypt_context.verify(plaintext, digest)\<close>: a
  boolean, or an exception raised inside the library (named by its class).
\<close>

datatype lib_error = Raised string

record hasher =
  verify :: "string \<Rightarrow> string \<Rightarrow> lib_error + bool"

section \<open>Authentication and tokens (main.py)\<close>

text \<open>
  \<^verbatim>\<open>authenticate_user\<close> returns \<^verbatim>\<open>None\<close>, \<^verbatim>\<open>False\<close> or the user row. It has no
  exception handler, so an exception of \<^verbatim>\<open>verify\<close> leaves the function.
\<close>

datatype auth_result = AuthNone | AuthFalse | AuthUser Users

definition authenticate_user :: "hasher \<Rightarrow> string \<Rightarrow> string \<Rightarrow> database \<Rightarrow> lib_error + auth_result" where
  "authenticate_user H uname pw db =
     (case first (filter (\<lambda>u. username u = uname) (users db)) of
        None \<Rightarrow> Inr AuthNone
      | Some user \<Rightarrow>
          (case verify H pw (password user) of
             Inl e \<Rightarrow> Inl e
           | Inr ok \<Rightarrow> if \<not> ok then Inr AuthFalse else Inr (AuthUser user)))"

text \<open>\<^verbatim>\<open>timedelta(minutes=m)\<close> in seconds.\<close>

definition timedelta_minutes :: "int \<Rightarrow> int" where
  "timedelta_minutes m = 60 * m"

text \<open>
  \<^verbatim>\<open>create_token\<close>; \<open>secret\<close> is \<^verbatim>\<open>SECRET_KEY\<close> and \<open>now\<close> is
  \<^verbatim>\<open>datetime.now(timezone.utc)\<close>.
\<close>

definition create_token :: "jose \<Rightarrow> string \<Rightarrow> int \<Rightarrow> string \<Rightarrow> int \<Rightarrow> string \<Rightarrow> int \<Rightarrow> string" where
  "create_token J secret now uname uid urole expires_delta =
     jwt_encode J \<lparr>c_sub = Some uname, c_id = Some uid, c_role = Some urole,
                   c_exp = Some (now + expires_delta)\<rparr> secret"

text \<open>
  \<^verbatim>\<open>get_current_user\<close>. The token is \<^verbatim>\<open>None\<close> or a string; \<^verbatim>\<open>not token\<close> holds for
  \<^verbatim>\<open>None\<close> and for the empty string. \<open>Inr None\<close> is the return value \<^verbatim>\<open>None\<close> and
  \<open>Inl\<close> is the \<^verbatim>\<open>HTTPException\<close> raised in the handler of \<^verbatim>\<open>JWTError\<close>.
\<close>

definition get_current_user :: "jose \<Rightarrow> string \<Rightarrow> int \<Rightarrow> string option \<Rightarrow> http_error + identity option" where
  "get_current_user J secret now token =
     (case token of
        None \<Rightarrow> Inr None
      | Some tok \<Rightarrow>
          if tok = [] \<or> tok = ''undefined'' then Inr None
          else
            (case jwt_decode J tok secret now of
               Inl e \<Rightarrow> Inl (HTTPException 401 ''Could not validate credentials'')
             | Inr payload \<Rightarrow>
                 (case c_sub payload of
                    None \<Rightarrow> Inr None
                  | Some uname \<Rightarrow>
                      (case c_id payload of
                         None \<Rightarrow> Inr None
                       | Some uid \<Rightarrow>
                           Inr (Some \<lparr>ident_username = uname, ident_id = uid,
                                      user_role = c_role payload\<rparr>)))))"

section \<open>Todo endpoints (main.py)\<close>

text \<open>
  Each endpoint receives the resolved \<^verbatim>\<open>user\<close> (\<^verbatim>\<open>None\<close> or the identity dict) and
  the session. An endpoint that writes returns the database after \<^verbatim>\<open>db.commit()\<close>.
  \<^verbatim>\<open>.filter(Todos.id == id).filter(Todos.owner_id == user.get("id")).first()\<close> is two
  filters and \<open>first\<close>; a \<^verbatim>\<open>NULL\<close> owner equals no id.
\<close>

definition get_todo :: "identity option \<Rightarrow> database \<Rightarrow> int \<Rightarrow> http_error + Todos" where
  "get_todo user db i =
     (case user of
        None \<Rightarrow> Inl (HTTPException 401 ''Authentication failed'')
      | Some u \<Rightarrow>
          (case first (filter (\<lambda>t. owner_id t = Some (ident_id u))
                        (filter (\<lambda>t. todo_id t = i) (todos db))) of
             Some todo \<Rightarrow> Inr todo
           | None \<Rightarrow> Inl (HTTPException 404 ''Todo Not Found'')))"

text \<open>
  The primary key the database gives a new row: one more than the largest key in the
  table (1 in an empty table).
\<close>

definition next_id :: "Todos list \<Rightarrow> int" where
  "next_id ts = fold max (map todo_id ts) 0 + 1"

definition create_todo :: "identity option \<Rightarrow> database \<Rightarrow> TodoRequest \<Rightarrow> http_error + database" where
  "create_todo user db todo_request =
     (case user of
        None \<Rightarrow> Inl (HTTPException 401 ''Authentication failed'')
      | Some u \<Rightarrow>
          Inr (db\<lparr>todos := todos db @
                 [\<lparr>title = title todo_request, description = description todo_request,
                   priority = priority todo_request, complete = complete todo_request,
                   todo_id = next_id (todos db), owner_id = Some (ident_id u)\<rparr>]\<rparr>))"

text \<open>The row \<^verbatim>\<open>update_todo\<close> found is written back under its primary key.\<close>

definition update_todo :: "identity option \<Rightarrow> database \<Rightarrow> int \<Rightarrow> TodoRequest \<Rightarrow> http_error + database" where
  "update_todo user db i todo_request =
     (case user of
        None \<Rightarrow> Inl (HTTPException 401 ''Authentication failed'')
      | Some u \<Rightarrow>
          (case first (filter (\<lambda>t. owner_id t = Some (ident_id u))
                        (filter (\<lambda>t. todo_id t = i) (todos db))) of
             None \<Rightarrow> Inl (HTTPException 404 ''Todo Not Found'')
           | Some todo \<Rightarrow>
               Inr (db\<lparr>todos := map (\<lambda>t. if todo_id t = todo_id todo
                                          then t\<lparr>title := title todo_request,
                                                 description := description todo_request,
                                                 priority := priority todo_request,
                                                 complete := complete todo_request\<rparr>
                                          else t) (todos db)\<rparr>)))"

definition delete_todo :: "identity option \<Rightarrow> database \<Rightarrow> int \<Rightarrow> http_error + database" where
  "delete_todo user db i =
     (case user of
        None \<Rightarrow> Inl (HTTPException 401 ''Authentication failed'')
      | Some u \<Rightarrow>
          if user_role u \<noteq> Some ''admin'' then Inl (HTTPException 403 ''Uh-uh'')
          else
            (case first (filter (\<lambda>t. owner_id t = Some (ident_id u))
                          (filter (\<lambda>t. todo_id t = i) (todos db))) of
               None \<Rightarrow> Inl (HTTPException 404 ''Todo Not Found'')
             | Some todo \<Rightarrow>
                 Inr (db\<lparr>todos := filter (\<lambda>t. \<not> (todo_id t = i \<and> owner_id t = Some (ident_id u)))
                                     (todos db)\<rparr>)))"

section \<open>The token endpoint (main.py)\<close>

text \<open>
  The fields of \<^verbatim>\<open>OAuth2PasswordRequestForm\<close>. The endpoint returns the dict
  \<^verbatim>\<open>{'access_token': token, "token_type": "Bearer"}\<close> or a bare string;
  \<^verbatim>\<open>not user\<close> holds for \<^verbatim>\<open>None\<close> and for \<^verbatim>\<open>False\<close>.
\<close>

record form_data =
  form_username :: string
  form_password :: string
  form_scope :: string
  form_grant_type :: "string option"
  form_client_id :: "string option"
  form_client_secret :: "string option"

datatype token_response = Token (access_token: string) (token_type: string) | Text string

definition create_access_token ::
  "jose \<Rightarrow> hasher \<Rightarrow> string \<Rightarrow> int \<Rightarrow> form_data \<Rightarrow> database \<Rightarrow> lib_error + token_response" where
  "create_access_token J H secret now form db =
     (case authenticate_user H (form_username form) (form_password form) db of
        Inl e \<Rightarrow> Inl e
      | Inr AuthNone \<Rightarrow> Inr (Text ''Failed authentication'')
      | Inr AuthFalse \<Rightarrow> Inr (Text ''Failed authentication'')
      | Inr (AuthUser user) \<Rightarrow>
          Inr (Token (create_token J secret now (username user) (user_id user) (role user)
                        (timedelta_minutes 180)) ''Bearer''))"

section \<open>Pages (main.py)\<close>

text \<open>
  A page handler returns a template response (the template's name and its context,
  without the request), a redirect (url, status code, cookies deleted), or falls off its
  end and returns \<^verbatim>\<open>None\<close>. The bare \<^verbatim>\<open>except:\<close> of each handler catches the
  \<^verbatim>\<open>HTTPException\<close> of \<^verbatim>\<open>get_current_user\<close>.
\<close>

datatype ctx_val = CTodos "Todos list" | CTodo "Todos option" | CUser identity

datatype response =
    TemplateResponse string "(string \<times> ctx_val) list"
  | RedirectResponse string nat "string list"

definition redirect_to_login :: response where
  "redirect_to_login = RedirectResponse ''/login-page'' 302 [''access_token'']"

text \<open>
  In \<^verbatim>\<open>render_todo_page\<close> the handler is \<^verbatim>\<open>except: redirect_to_login()\<close> with no
  \<^verbatim>\<open>return\<close>: the redirect is built and dropped, and the function returns \<^verbatim>\<open>None\<close>.
\<close>

definition render_todo_page :: "jose \<Rightarrow> string \<Rightarrow> int \<Rightarrow> string option \<Rightarrow> database \<Rightarrow> response option" where
  "render_todo_page J secret now cookie db =
     (case get_current_user J secret now cookie of
        Inl e \<Rightarrow> None
      | Inr None \<Rightarrow> Some redirect_to_login
      | Inr (Some user) \<Rightarrow>
          Some (TemplateResponse ''todo.html''
                  [(''todos'', CTodos (filter (\<lambda>t. owner_id t = Some (ident_id user)) (todos db))),
                   (''user'', CUser user)]))"

definition add_todo_page :: "jose \<Rightarrow> string \<Rightarrow> int \<Rightarrow> string option \<Rightarrow> database \<Rightarrow> response option" where
  "add_todo_page J secret now cookie db =
     (case get_current_user J secret now cookie of
        Inl e \<Rightarrow> Some redirect_to_login
      | Inr None \<Rightarrow> Some redirect_to_login
      | Inr (Some user) \<Rightarrow> Some (TemplateResponse ''add-todo.html'' [(''user'', CUser user)]))"

text \<open>\<^verbatim>\<open>edit_todo_page\<close> queries by \<^verbatim>\<open>Todos.id == todo_id\<close> alone.\<close>

definition edit_todo_page :: "jose \<Rightarrow> string \<Rightarrow> int \<Rightarrow> string option \<Rightarrow> database \<Rightarrow> int \<Rightarrow> response option" where
  "edit_todo_page J secret now cookie db i =
     (case get_current_user J secret now cookie of
        Inl e \<Rightarrow> Some redirect_to_login
      | Inr None \<Rightarrow> Some redirect_to_login
      | Inr (Some user) \<Rightarrow>
          Some (TemplateResponse ''edit-todo.html''
                  [(''todo'', CTodo (first (filter (\<lambda>t. todo_id t = i) (todos db)))),
                   (''user'', CUser user)]))"

section \<open>What is assumed of the JWT library\<close>

text \<open>
  The contract of \<^verbatim>\<open>jwt.encode\<close> and \<^verbatim>\<open>jwt.decode\<close> for one algorithm, as far as the
  theorems below use it: a token decodes under its own key to the payload it was made
  from as long as \<^verbatim>\<open>exp\<close> is not in the past (the library raises when
  \<^verbatim>\<open>exp < now\<close>); after that it raises \<^verbatim>\<open>ExpiredSignatureError\<close>; under any other
  key the signature check raises; and a token is three segments joined by dots.
  That distinct keys never verify each other's signatures idealises the MAC.
\<close>

definition jose_contract :: "jose \<Rightarrow> bool" where
  "jose_contract J \<longleftrightarrow>
     (\<forall>c k now. (case c_exp c of None \<Rightarrow> True | Some e \<Rightarrow> now \<le> e) \<longrightarrow>
        jwt_decode J (jwt_encode J c k) k now = Inr c) \<and>
     (\<forall>c k now e. c_exp c = Some e \<and> e < now \<longrightarrow>
        jwt_decode J (jwt_encode J c k) k now = Inl ExpiredSignatureError) \<and>
     (\<forall>c k k' now. k \<noteq> k' \<longrightarrow> jwt_decode J (jwt_encode J c k) k' now = Inl JWTError) \<and>
     (\<forall>c k. CHR ''.'' \<in> set (jwt_encode J c k))"





subsection \<open>A codec in miniature that meets the contract\<close>

text \<open>
  A stand-in for the library, used to show that the contract can be met and to run
  the endpoints on concrete tokens. The payload is written in the clear (numbers in
  unary, strings with their length first, \<open>N\<close> for an absent key and \<open>S\<close> before a
  present one), then a dot, then the key in place of a signature.
\<close>

fun enc_nat :: "nat \<Rightarrow> string" where
  "enc_nat 0 = ''0''"
| "enc_nat (Suc n) = CHR ''1'' # enc_nat n"

fun dec_nat :: "string \<Rightarrow> (nat \<times> string) option" where
  "dec_nat [] = None"
| "dec_nat (c # cs) =
     (if c = CHR ''0'' then Some (0, cs)
      else if c = CHR ''1'' then
        (case dec_nat cs of None \<Rightarrow> None | Some (n, r) \<Rightarrow> Some (Suc n, r))
      else None)"

definition enc_str :: "string \<Rightarrow> string" where
  "enc_str s = enc_nat (length s) @ s"

definition dec_str :: "string \<Rightarrow> (string \<times> string) option" where
  "dec_str x =
     (case dec_nat x of
        None \<Rightarrow> None
      | Some (n, r) \<Rightarrow> if n \<le> length r then Some (take n r, drop n r) else None)"

definition enc_int :: "int \<Rightarrow> string" where
  "enc_int i = (if i < 0 then CHR ''-'' else CHR ''+'') # enc_nat (nat \<bar>i\<bar>)"

fun dec_int :: "string \<Rightarrow> (int \<times> string) option" where
  "dec_int [] = None"
| "dec_int (c # cs) =
     (case dec_nat cs of
        None \<Rightarrow> None
      | Some (n, r) \<Rightarrow>
          if c = CHR ''-'' then (if n = 0 then None else Some (- int n, r))
          else if c = CHR ''+'' then Some (int n, r)
          else None)"

fun enc_opt :: "('a \<Rightarrow> string) \<Rightarrow> 'a option \<Rightarrow> string" where
  "enc_opt f None = ''N''"
| "enc_opt f (Some v) = CHR ''S'' # f v"

fun dec_opt :: "(string \<Rightarrow> ('a \<times> string) option) \<Rightarrow> string \<Rightarrow> ('a option \<times> string) option" where
  "dec_opt d [] = None"
| "dec_opt d (c # cs) =
     (if c = CHR ''N'' then Some (None, cs)
      else if c = CHR ''S'' then
        (case d cs of None \<Rightarrow> None | Some (v, r) \<Rightarrow> Some (Some v, r))
      else None)"

definition plain_encode :: "claims \<Rightarrow> string \<Rightarrow> string" where
  "plain_encode c k =
     enc_opt enc_str (c_sub c) @ enc_opt enc_int (c_id c) @ enc_opt enc_str (c_role c) @
     enc_opt enc_int (c_exp c) @ CHR ''.'' # k"

definition plain_parse :: "string \<Rightarrow> (claims \<times> string) option" where
  "plain_parse tok =
     (case dec_opt dec_str tok of
        None \<Rightarrow> None
      | Some (s, r1) \<Rightarrow>
          (case dec_opt dec_int r1 of
             None \<Rightarrow> None
           | Some (i, r2) \<Rightarrow>
               (case dec_opt dec_str r2 of
                  None \<Rightarrow> None
                | Some (ro, r3) \<Rightarrow>
                    (case dec_opt dec_int r3 of
                       None \<Rightarrow> None
                     | Some (e, r4) \<Rightarrow>
                         (case r4 of
                            [] \<Rightarrow> None
                          | d # sig \<Rightarrow>
                              if d = CHR ''.''
                              then Some (\<lparr>c_sub = s, c_id = i, c_role = ro, c_exp = e\<rparr>, sig)
                              else None)))))"

definition plain_decode :: "string \<Rightarrow> string \<Rightarrow> int \<Rightarrow> jwt_error + claims" where
  "plain_decode tok k now =
     (case plain_parse tok of
        None \<Rightarrow> Inl JWTError
      | Some (c, sig) \<Rightarrow>
          if sig \<noteq> k then Inl JWTError
          else
            (case c_exp c of
               None \<Rightarrow> Inr c
             | Some e \<Rightarrow> if e < now then Inl ExpiredSignatureError else Inr c))"

definition plain_jose :: jose where
  "plain_jose = \<lparr>jwt_encode = plain_encode, jwt_decode = plain_decode\<rparr>"

section \<open>Example data\<close>

text \<open>
  The row and the identity of the test fixtures (\<^verbatim>\<open>test/utils.py\<close>), a second
  user, and the caller of the spec's scenario (id 1, role "user").
\<close>

definition todo1 :: Todos where
  "todo1 = \<lparr>title = ''Test Todo'', description = ''Test description'', priority = 5,
             complete = False, todo_id = 1, owner_id = Some 1\<rparr>"

definition request1 :: TodoRequest where
  "request1 = \<lparr>title = ''Updated Todo'', description = ''Updated description'', priority = 3,
                complete = True\<rparr>"

definition db1 :: database where
  "db1 = \<lparr>users = [], todos = [todo1]\<rparr>"

definition den :: identity where
  "den = \<lparr>ident_username = ''Den'', ident_id = 1, user_role = Some ''admin''\<rparr>"

definition owner_not_admin :: identity where
  "owner_not_admin = \<lparr>ident_username = ''Den'', ident_id = 1, user_role = Some ''user''\<rparr>"

definition other_admin :: identity where
  "other_admin = \<lparr>ident_username = ''bob'', ident_id = 2, user_role = Some ''admin''\<rparr>"

definition other_user :: identity where
  "other_user = \<lparr>ident_username = ''bob'', ident_id = 2, user_role = Some ''user''\<rparr>"

text \<open>
  The user of the spec's scenario ("alice" with password "secret1"), with a stand-in
  for the password hasher: a digest is \<open>$p$\<close> followed by the plaintext, and any
  other digest is not recognised.
\<close>

definition plain_verify :: "string \<Rightarrow> string \<Rightarrow> lib_error + bool" where
  "plain_verify pw digest =
     (if take 3 digest = ''$p$'' then Inr (drop 3 digest = pw)
      else Inl (Raised ''UnknownHashError''))"

definition plain_hasher :: hasher where
  "plain_hasher = \<lparr>verify = plain_verify\<rparr>"

definition alice :: Users where
  "alice = \<lparr>user_id = 1, email = ''alice@example.com'', username = ''alice'',
             first_name = ''Alice'', last_name = ''Liddell'', password = ''$p$secret1'',
             is_active = True, role = ''user'', phone_number = ''+40 777 777 777''\<rparr>"

definition db2 :: database where
  "db2 = \<lparr>users = [alice], todos = [todo1]\<rparr>"

definition login :: "string \<Rightarrow> string \<Rightarrow> form_data" where
  "login uname pw = \<lparr>form_username = uname, form_password = pw, form_scope = [],
                     form_grant_type = None, form_client_id = None,
                     form_client_secret = None\<rparr>"

section \<open>Lemmas on queries and on the codec in miniature\<close>

text \<open>A unique column selects at most one row: the primary key of a table, the username.\<close>

lemma filter_unique_key:
  assumes "distinct (map f xs)" and "t \<in> set xs"
  shows "filter (\<lambda>x. f x = f t) xs = [t]"
proof -
  have "inj_on f (set xs)" "distinct xs"
    using assms(1) by (simp_all add: distinct_map)
  then have "filter (\<lambda>x. f x = f t) xs = filter (\<lambda>x. x = t) xs"
    using assms(2) by (intro filter_cong refl) (auto dest: inj_onD)
  moreover have "filter (\<lambda>x. x = t) xs = [t]"
    using \<open>distinct xs\<close> assms(2) by (induction xs) (auto simp: filter_empty_conv)
  ultimately show ?thesis by simp
qed

lemma filter_primary_key:
  "distinct (map todo_id ts) \<Longrightarrow> t \<in> set ts \<Longrightarrow> filter (\<lambda>x. todo_id x = todo_id t) ts = [t]"
  by (rule filter_unique_key)

lemma filter_username:
  "distinct (map username us) \<Longrightarrow> u \<in> set us \<Longrightarrow> filter (\<lambda>x. username x = username u) us = [u]"
  by (rule filter_unique_key)

lemma filter_owned_key:
  assumes "distinct (map todo_id ts)" and "t \<in> set ts" and "owner_id t = Some uid"
  shows "filter (\<lambda>x. \<not> (todo_id x = todo_id t \<and> owner_id x = Some uid)) ts = removeAll t ts"
proof -
  have "inj_on todo_id (set ts)"
    using assms(1) by (simp add: distinct_map)
  then show ?thesis
    unfolding removeAll_filter_not_eq
    using assms(2,3) by (intro filter_cong refl) (auto dest: inj_onD)
qed

lemma next_id_fresh: "next_id ts \<notin> todo_id ` set ts"
proof
  assume "next_id ts \<in> todo_id ` set ts"
  then have "next_id ts \<in> set (0 # map todo_id ts)" by simp
  then have "next_id ts \<le> Max (set (0 # map todo_id ts))" by (intro Max_ge) simp_all
  also have "\<dots> = fold max (map todo_id ts) 0" by (rule Max.set_eq_fold)
  finally show False by (simp add: next_id_def)
qed

text \<open>
  The three writing endpoints keep the primary key unique, so the uniqueness the
  theorems below assume of a table holds of every table the endpoints produce.
\<close>

lemma primary_key_preserved:
  assumes "distinct (map todo_id (todos db))"
  shows "create_todo user db req = Inr db' \<Longrightarrow> distinct (map todo_id (todos db'))"
    and "update_todo user db i req = Inr db' \<Longrightarrow> distinct (map todo_id (todos db'))"
    and "delete_todo user db i = Inr db' \<Longrightarrow> distinct (map todo_id (todos db'))"
proof -
  assume "create_todo user db req = Inr db'"
  with assms next_id_fresh [of "todos db"] show "distinct (map todo_id (todos db'))"
    by (auto simp: create_todo_def split: option.splits)
next
  have same: "todo_id \<circ> (\<lambda>t. if P t then t\<lparr>title := a, description := b, priority := c,
      complete := d\<rparr> else t) = todo_id" for P a b c d
    by (simp add: fun_eq_iff)
  assume "update_todo user db i req = Inr db'"
  with assms show "distinct (map todo_id (todos db'))"
    by (auto simp: update_todo_def same split: option.splits)
next
  assume "delete_todo user db i = Inr db'"
  with assms show "distinct (map todo_id (todos db'))"
    by (auto simp: delete_todo_def distinct_map_filter split: option.splits if_splits)
qed

text \<open>The codec in miniature reads back what it wrote, and so meets the contract.\<close>

lemma dec_nat_enc_nat: "dec_nat (enc_nat n @ r) = Some (n, r)"
  by (induction n) simp_all

lemma dec_str_enc_str: "dec_str (enc_str s @ r) = Some (s, r)"
  by (simp add: dec_str_def enc_str_def dec_nat_enc_nat)

lemma dec_int_enc_int: "dec_int (enc_int i @ r) = Some (i, r)"
  by (simp add: enc_int_def dec_nat_enc_nat)

lemma dec_opt_enc_opt:
  "(\<And>v r. d (f v @ r) = Some (v, r)) \<Longrightarrow> dec_opt d (enc_opt f x @ r) = Some (x, r)"
  by (cases x) simp_all

lemma plain_parse_encode: "plain_parse (plain_encode c k) = Some (c, k)"
  by (simp add: plain_parse_def plain_encode_def dec_opt_enc_opt dec_str_enc_str dec_int_enc_int)

lemma plain_decode_encode:
  "plain_decode (plain_encode c k) k' now =
     (if k \<noteq> k' then Inl JWTError
      else case c_exp c of
             None \<Rightarrow> Inr c
           | Some e \<Rightarrow> if e < now then Inl ExpiredSignatureError else Inr c)"
  by (simp add: plain_decode_def plain_parse_encode)

lemma plain_encode_dot: "CHR ''.'' \<in> set (plain_encode c k)"
  by (simp add: plain_encode_def)

lemma plain_jose_contract: "jose_contract plain_jose"
  unfolding jose_contract_def plain_jose_def
  by (auto simp: plain_decode_encode plain_encode_dot split: option.splits)

lemma plain_decode_garbage: "jwt_decode plain_jose ''garbage'' k now = Inl JWTError"
  by (simp add: plain_jose_def plain_decode_def plain_parse_def)

text \<open>A token of a library that meets the contract is neither empty nor "undefined".\<close>

lemma contract_token_shape:
  assumes "jose_contract J"
  shows "jwt_encode J c k \<noteq> [] \<and> jwt_encode J c k \<noteq> ''undefined''"
proof -
  from assms have "CHR ''.'' \<in> set (jwt_encode J c k)"
    by (simp add: jose_contract_def)
  moreover have "CHR ''.'' \<notin> set ''undefined''" by simp
  ultimately show ?thesis by auto
qed


















text \<open>The example user logs in with her password and with no other.\<close>

lemma alice_logs_in:
  "authenticate_user plain_hasher ''alice'' ''secret1'' db2 = Inr (AuthUser alice)"
  by (simp add: authenticate_user_def db2_def alice_def plain_hasher_def plain_verify_def)

lemma alice_wrong_password:
  "authenticate_user plain_hasher ''alice'' ''wrong'' db2 = Inr AuthFalse"
  by (simp add: authenticate_user_def db2_def alice_def plain_hasher_def plain_verify_def)

lemma bob_unknown:
  "authenticate_user plain_hasher ''bob'' ''x'' db2 = Inr AuthNone"
  by (simp add: authenticate_user_def db2_def alice_def)

text \<open>
  The page handlers. \<^verbatim>\<open>render_todo_page\<close> returns \<^verbatim>\<open>None\<close> exactly when resolving
  the cookie raises; the other two pages redirect to the login page whenever no identity
  is resolved.
\<close>

lemma render_todo_page_none_iff:
  "render_todo_page J secret now cookie db = None \<longleftrightarrow>
     (\<exists>e. get_current_user J secret now cookie = Inl e)"
  by (auto simp: render_todo_page_def split: sum.splits option.splits)

lemma render_todo_page_anonymous:
  "get_current_user J secret now cookie = Inr None \<Longrightarrow>
     render_todo_page J secret now cookie db = Some redirect_to_login"
  by (simp add: render_todo_page_def)

lemma add_todo_page_redirects:
  "(\<And>u. get_current_user J secret now cookie \<noteq> Inr (Some u)) \<Longrightarrow>
     add_todo_page J secret now cookie db = Some redirect_to_login"
  by (auto simp: add_todo_page_def split: sum.splits option.splits)

lemma edit_todo_page_redirects:
  "(\<And>u. get_current_user J secret now cookie \<noteq> Inr (Some u)) \<Longrightarrow>
     edit_todo_page J secret now cookie db i = Some redirect_to_login"
  by (auto simp: edit_todo_page_def split: sum.splits option.splits)

text \<open>
  \<^verbatim>\<open>edit_todo_page\<close> hands the template the row with the requested key, whoever
  owns it: here the row of user 1 to the caller with id 2.
\<close>

lemma edit_todo_page_any_owner:
  "get_current_user J secret now cookie = Inr (Some u) \<Longrightarrow>
     edit_todo_page J secret now cookie db i =
       Some (TemplateResponse ''edit-todo.html''
               [(''todo'', CTodo (first (filter (\<lambda>t. todo_id t = i) (todos db)))),
                (''user'', CUser u)])"
  by (simp add: edit_todo_page_def)

lemma edit_todo_page_shows_foreign_todo:
  "edit_todo_page plain_jose ''s3cret'' 0
     (Some (create_token plain_jose ''s3cret'' 0 ''bob'' 2 ''user'' 10800)) db1 1 =
   Some (TemplateResponse ''edit-todo.html''
           [(''todo'', CTodo (Some todo1)), (''user'', CUser other_user)])"
proof -
  let ?c = "\<lparr>c_sub = Some ''bob'', c_id = Some 2, c_role = Some ''user'', c_exp = Some 10800\<rparr>"
  have "jwt_decode plain_jose (jwt_encode plain_jose ?c ''s3cret'') ''s3cret'' 0 = Inr ?c"
    using plain_jose_contract by (simp add: jose_contract_def)
  with contract_token_shape [OF plain_jose_contract, of ?c "''s3cret''"]
  have "get_current_user plain_jose ''s3cret'' 0
      (Some (create_token plain_jose ''s3cret'' 0 ''bob'' 2 ''user'' 10800)) = Inr (Some other_user)"
    by (simp add: get_current_user_def create_token_def other_user_def)
  then show ?thesis
    by (simp add: edit_todo_page_any_owner db1_def todo1_def)
qed

text \<open>An exception of \<^verbatim>\<open>verify\<close> leaves \<^verbatim>\<open>authenticate_user\<close> and the token endpoint.\<close>

lemma authenticate_user_propagates:
  assumes "distinct (map username (users db))" and "u \<in> set (users db)"
    and "verify H pw (password u) = Inl e"
  shows "authenticate_user H (username u) pw db = Inl e"
  using assms by (simp add: authenticate_user_def filter_username)

lemma create_access_token_propagates:
  "authenticate_user H (form_username form) (form_password form) db = Inl e \<Longrightarrow>
     create_access_token J H secret now form db = Inl e"
  by (simp add: create_access_token_def)

section \<open>Claims\<close>

text \<open>
  C5. The identity resolver applied to an absent token and to the placeholder string
  "undefined" returns \<^verbatim>\<open>None\<close> (Anonymous) and raises nothing, whatever the JWT
  library, the secret and the instant are: the decoder is not consulted.
\<close>

theorem resolve_absent_and_placeholder_anonymous:
  "get_current_user J secret now None = Inr None \<and>
   get_current_user J secret now (Some ''undefined'') = Inr None \<and>
   get_current_user J secret now None = get_current_user J' secret' now' None \<and>
   get_current_user J secret now (Some ''undefined'') =
     get_current_user J' secret' now' (Some ''undefined'')"
  by (simp add: get_current_user_def)

text \<open>
  C4. \<^verbatim>\<open>delete_todo\<close> checks in the order authenticated, role "admin", ownership.
  For a row \<open>t\<close> of a table with a unique primary key: no identity gives 401; an
  identity whose role is not the literal "admin" gives 403, whether or not it owns the
  row; an admin who does not own the row gets 404; and for an admin who owns it the row,
  and nothing else, is deleted.
\<close>

theorem delete_todo_check_order:
  assumes "distinct (map todo_id (todos db))" and "t \<in> set (todos db)"
  shows "delete_todo None db (todo_id t) = Inl (HTTPException 401 ''Authentication failed'') \<and>
    (user_role u \<noteq> Some ''admin'' \<longrightarrow>
       delete_todo (Some u) db (todo_id t) = Inl (HTTPException 403 ''Uh-uh'')) \<and>
    (user_role u = Some ''admin'' \<and> owner_id t \<noteq> Some (ident_id u) \<longrightarrow>
       delete_todo (Some u) db (todo_id t) = Inl (HTTPException 404 ''Todo Not Found'')) \<and>
    (user_role u = Some ''admin'' \<and> owner_id t = Some (ident_id u) \<longrightarrow>
       delete_todo (Some u) db (todo_id t) = Inr (db\<lparr>todos := removeAll t (todos db)\<rparr>))"
proof (intro conjI impI)
  show "delete_todo None db (todo_id t) = Inl (HTTPException 401 ''Authentication failed'')"
    by (simp add: delete_todo_def)
next
  assume "user_role u \<noteq> Some ''admin''"
  then show "delete_todo (Some u) db (todo_id t) = Inl (HTTPException 403 ''Uh-uh'')"
    by (simp add: delete_todo_def)
next
  assume "user_role u = Some ''admin'' \<and> owner_id t \<noteq> Some (ident_id u)"
  with assms show "delete_todo (Some u) db (todo_id t) = Inl (HTTPException 404 ''Todo Not Found'')"
    by (simp add: delete_todo_def filter_primary_key)
next
  assume h: "user_role u = Some ''admin'' \<and> owner_id t = Some (ident_id u)"
  with assms have gone:
    "filter (\<lambda>x. \<not> (todo_id x = todo_id t \<and> owner_id x = Some (ident_id u))) (todos db) =
       removeAll t (todos db)"
    by (intro filter_owned_key) simp_all
  from assms h have
    "delete_todo (Some u) db (todo_id t) =
       Inr (db\<lparr>todos := filter (\<lambda>x. \<not> (todo_id x = todo_id t \<and> owner_id x = Some (ident_id u)))
                             (todos db)\<rparr>)"
    by (simp add: delete_todo_def filter_primary_key)
  then show "delete_todo (Some u) db (todo_id t) = Inr (db\<lparr>todos := removeAll t (todos db)\<rparr>)"
    by (simp only: gone)
qed

theorem delete_todo_check_order_witness:
  "delete_todo None db1 1 = Inl (HTTPException 401 ''Authentication failed'') \<and>
   delete_todo (Some owner_not_admin) db1 1 = Inl (HTTPException 403 ''Uh-uh'') \<and>
   delete_todo (Some other_admin) db1 1 = Inl (HTTPException 404 ''Todo Not Found'') \<and>
   delete_todo (Some den) db1 1 = Inr (db1\<lparr>todos := []\<rparr>)"
proof -
  have d: "distinct (map todo_id (todos db1))" and m: "todo1 \<in> set (todos db1)"
    by (simp_all add: db1_def)
  have i: "todo_id todo1 = 1" and o: "owner_id todo1 = Some 1"
    by (simp_all add: todo1_def)
  show ?thesis
    using delete_todo_check_order [OF d m, of owner_not_admin]
      delete_todo_check_order [OF d m, of other_admin]
      delete_todo_check_order [OF d m, of den]
    by (simp add: i o owner_not_admin_def other_admin_def den_def db1_def)
qed

text \<open>
  C10. \<^verbatim>\<open>create_todo\<close> by an authenticated caller appends exactly one row; its owner
  is the caller's id, its other columns are those of the request body, and its key is
  new. The body (\<open>TodoRequest\<close>) has no owner field, so this holds for every body.
  Without an identity nothing is created (401).
\<close>

theorem create_todo_owner_is_caller:
  "(\<exists>t. create_todo (Some u) db req = Inr (db\<lparr>todos := todos db @ [t]\<rparr>) \<and>
        owner_id t = Some (ident_id u) \<and> todo_id t \<notin> todo_id ` set (todos db) \<and>
        title t = title req \<and> description t = description req \<and>
        priority t = priority req \<and> complete t = complete req) \<and>
   create_todo None db req = Inl (HTTPException 401 ''Authentication failed'')"
proof -
  let ?t = "\<lparr>title = title req, description = description req, priority = priority req,
             complete = complete req, todo_id = next_id (todos db),
             owner_id = Some (ident_id u)\<rparr>"
  have "create_todo (Some u) db req = Inr (db\<lparr>todos := todos db @ [?t]\<rparr>)"
    by (simp add: create_todo_def)
  moreover have "owner_id ?t = Some (ident_id u)" "title ?t = title req"
    "description ?t = description req" "priority ?t = priority req" "complete ?t = complete req"
    by simp_all
  moreover have "todo_id ?t \<notin> todo_id ` set (todos db)"
    using next_id_fresh [of "todos db"] by simp
  moreover have "create_todo None db req = Inl (HTTPException 401 ''Authentication failed'')"
    by (simp add: create_todo_def)
  ultimately show ?thesis by blast
qed

text \<open>
  C1, as amended. For a row \<open>t\<close> of a table with a unique primary key and an
  authenticated caller whose id is not the row's owner: \<^verbatim>\<open>get_todo\<close> and
  \<^verbatim>\<open>update_todo\<close> answer 404; \<^verbatim>\<open>delete_todo\<close> answers 403 when the caller's role is
  not "admin" and 404 when it is. Each answer is an error, so the row is neither returned
  nor changed nor deleted.
\<close>

theorem foreign_todo_not_reachable:
  assumes "distinct (map todo_id (todos db))" and "t \<in> set (todos db)"
    and "owner_id t \<noteq> Some (ident_id u)"
  shows "get_todo (Some u) db (todo_id t) = Inl (HTTPException 404 ''Todo Not Found'') \<and>
    update_todo (Some u) db (todo_id t) req = Inl (HTTPException 404 ''Todo Not Found'') \<and>
    delete_todo (Some u) db (todo_id t) =
      (if user_role u = Some ''admin'' then Inl (HTTPException 404 ''Todo Not Found'')
       else Inl (HTTPException 403 ''Uh-uh''))"
  using assms
  by (simp add: get_todo_def update_todo_def delete_todo_def filter_primary_key)

theorem foreign_todo_not_reachable_witness:
  "get_todo (Some other_user) db1 1 = Inl (HTTPException 404 ''Todo Not Found'') \<and>
   update_todo (Some other_user) db1 1 request1 = Inl (HTTPException 404 ''Todo Not Found'') \<and>
   delete_todo (Some other_user) db1 1 = Inl (HTTPException 403 ''Uh-uh'') \<and>
   delete_todo (Some other_admin) db1 1 = Inl (HTTPException 404 ''Todo Not Found'')"
proof -
  have d: "distinct (map todo_id (todos db1))" and m: "todo1 \<in> set (todos db1)"
    by (simp_all add: db1_def)
  have i: "todo_id todo1 = 1"
    by (simp add: todo1_def)
  have o: "owner_id todo1 \<noteq> Some (ident_id other_user)"
    and o': "owner_id todo1 \<noteq> Some (ident_id other_admin)"
    by (simp_all add: todo1_def other_user_def other_admin_def)
  show ?thesis
    using foreign_todo_not_reachable [OF d m o, of request1]
      foreign_todo_not_reachable [OF d m o', of request1]
    by (simp add: i other_user_def other_admin_def)
qed

text \<open>
  C1 as stated fails: a caller who is neither the owner of the row nor an admin asks
  \<^verbatim>\<open>delete_todo\<close> for it and is answered 403 (Forbidden), not 404.
\<close>

theorem delete_answers_forbidden_for_foreign_todo:
  "todo1 \<in> set (todos db1) \<and> owner_id todo1 \<noteq> Some (ident_id other_user) \<and>
   delete_todo (Some other_user) db1 (todo_id todo1) = Inl (HTTPException 403 ''Uh-uh'') \<and>
   delete_todo (Some other_user) db1 (todo_id todo1) \<noteq> Inl (HTTPException 404 ''Todo Not Found'')"
  by (simp add: delete_todo_def db1_def todo1_def other_user_def)

text \<open>
  C6. With unique usernames: \<^verbatim>\<open>authenticate_user\<close> returns \<^verbatim>\<open>None\<close> (NotFound) when
  no row has the username; \<^verbatim>\<open>False\<close> (BadPassword) when the row exists and
  \<^verbatim>\<open>verify\<close> returns false; the row itself when \<^verbatim>\<open>verify\<close> returns true. The three
  values differ from one another.
\<close>

theorem authenticate_user_outcomes:
  assumes "distinct (map username (users db))"
  shows "((\<forall>u\<in>set (users db). username u \<noteq> uname) \<longrightarrow>
            authenticate_user H uname pw db = Inr AuthNone) \<and>
    (\<forall>u\<in>set (users db). username u = uname \<and> verify H pw (password u) = Inr False \<longrightarrow>
            authenticate_user H uname pw db = Inr AuthFalse) \<and>
    (\<forall>u\<in>set (users db). username u = uname \<and> verify H pw (password u) = Inr True \<longrightarrow>
            authenticate_user H uname pw db = Inr (AuthUser u)) \<and>
    AuthNone \<noteq> AuthFalse \<and> (\<forall>u. AuthUser u \<noteq> AuthNone \<and> AuthUser u \<noteq> AuthFalse)"
proof (intro conjI impI ballI allI)
  assume "\<forall>u\<in>set (users db). username u \<noteq> uname"
  then have "filter (\<lambda>u. username u = uname) (users db) = []"
    by (simp add: filter_empty_conv)
  then show "authenticate_user H uname pw db = Inr AuthNone"
    by (simp add: authenticate_user_def)
next
  fix u
  assume "u \<in> set (users db)" and "username u = uname \<and> verify H pw (password u) = Inr False"
  with assms filter_username [of "users db" u]
  show "authenticate_user H uname pw db = Inr AuthFalse"
    by (auto simp: authenticate_user_def)
next
  fix u
  assume "u \<in> set (users db)" and "username u = uname \<and> verify H pw (password u) = Inr True"
  with assms filter_username [of "users db" u]
  show "authenticate_user H uname pw db = Inr (AuthUser u)"
    by (auto simp: authenticate_user_def)
qed simp_all

theorem authenticate_user_outcomes_witness:
  "authenticate_user plain_hasher ''alice'' ''secret1'' db2 = Inr (AuthUser alice) \<and>
   authenticate_user plain_hasher ''alice'' ''wrong'' db2 = Inr AuthFalse \<and>
   authenticate_user plain_hasher ''bob'' ''x'' db2 = Inr AuthNone"
proof -
  have d: "distinct (map username (users db2))"
    by (simp add: db2_def)
  have u: "users db2 = [alice]" "username alice = ''alice''" "password alice = ''$p$secret1''"
    by (simp_all add: db2_def alice_def)
  have v: "verify plain_hasher ''secret1'' ''$p$secret1'' = Inr True"
    "verify plain_hasher ''wrong'' ''$p$secret1'' = Inr False"
    by (simp_all add: plain_hasher_def plain_verify_def)
  show ?thesis
    using authenticate_user_outcomes [OF d, of "''alice''" plain_hasher "''secret1''"]
      authenticate_user_outcomes [OF d, of "''alice''" plain_hasher "''wrong''"]
      authenticate_user_outcomes [OF d, of "''bob''" plain_hasher "''x''"]
    by (simp add: u v)
qed

text \<open>
  C2. For a JWT library that meets its contract: the token \<^verbatim>\<open>create_token\<close> makes
  from a username, a user id and a role, resolved by \<^verbatim>\<open>get_current_user\<close> with the
  same secret at any instant up to issuance plus the time to live, gives back exactly
  that username, id and role.
\<close>

theorem token_round_trip:
  assumes "jose_contract J" and "now \<le> issued + ttl"
  shows "get_current_user J secret now (Some (create_token J secret issued uname uid urole ttl)) =
    Inr (Some \<lparr>ident_username = uname, ident_id = uid, user_role = Some urole\<rparr>)"
proof -
  let ?c = "\<lparr>c_sub = Some uname, c_id = Some uid, c_role = Some urole,
             c_exp = Some (issued + ttl)\<rparr>"
  from assms have "jwt_decode J (jwt_encode J ?c secret) secret now = Inr ?c"
    by (simp add: jose_contract_def)
  with contract_token_shape [OF assms(1), of ?c secret] show ?thesis
    by (simp add: get_current_user_def create_token_def)
qed

theorem token_round_trip_witness:
  "get_current_user plain_jose ''s3cret'' 10800
     (Some (create_token plain_jose ''s3cret'' 0 ''alice'' 1 ''user'' 10800)) =
   Inr (Some \<lparr>ident_username = ''alice'', ident_id = 1, user_role = Some ''user''\<rparr>)"
  using token_round_trip [OF plain_jose_contract, of 10800 0 10800] by simp




text \<open>
  C9. When \<^verbatim>\<open>authenticate_user\<close> returns a user, \<^verbatim>\<open>POST /token\<close> returns
  \<^verbatim>\<open>access_token\<close> and \<^verbatim>\<open>token_type\<close> "Bearer", and the token is the encoding of
  the user's name, id and role with \<^verbatim>\<open>exp\<close> set to the instant of the call plus
  180 minutes, whatever the form holds; for a library that meets its contract the token
  resolves to that user up to that instant and is refused (401) after it. When
  \<^verbatim>\<open>authenticate_user\<close> returns \<^verbatim>\<open>None\<close> or \<^verbatim>\<open>False\<close> the endpoint returns the
  bare string "Failed authentication", not an error.
\<close>

theorem create_access_token_response:
  "(\<forall>user. authenticate_user H (form_username form) (form_password form) db = Inr (AuthUser user) \<longrightarrow>
      (\<exists>tok. create_access_token J H secret now form db = Inr (Token tok ''Bearer'') \<and>
         tok = jwt_encode J \<lparr>c_sub = Some (username user), c_id = Some (user_id user),
                 c_role = Some (role user), c_exp = Some (now + 180 * 60)\<rparr> secret \<and>
         (jose_contract J \<longrightarrow>
            (\<forall>t. t \<le> now + 180 * 60 \<longrightarrow>
               get_current_user J secret t (Some tok) =
                 Inr (Some \<lparr>ident_username = username user, ident_id = user_id user,
                        user_role = Some (role user)\<rparr>)) \<and>
            (\<forall>t. now + 180 * 60 < t \<longrightarrow>
               get_current_user J secret t (Some tok) =
                 Inl (HTTPException 401 ''Could not validate credentials''))))) \<and>
   (authenticate_user H (form_username form) (form_password form) db = Inr AuthNone \<or>
    authenticate_user H (form_username form) (form_password form) db = Inr AuthFalse \<longrightarrow>
      create_access_token J H secret now form db = Inr (Text ''Failed authentication''))"
proof (intro conjI allI impI)
  fix user
  assume a: "authenticate_user H (form_username form) (form_password form) db = Inr (AuthUser user)"
  let ?c = "\<lparr>c_sub = Some (username user), c_id = Some (user_id user),
              c_role = Some (role user), c_exp = Some (now + 180 * 60)\<rparr>"
  let ?tok = "jwt_encode J ?c secret"
  have r: "create_access_token J H secret now form db = Inr (Token ?tok ''Bearer'')"
    using a by (simp add: create_access_token_def create_token_def timedelta_minutes_def)
  have w: "jose_contract J \<longrightarrow>
      (\<forall>t. t \<le> now + 180 * 60 \<longrightarrow>
         get_current_user J secret t (Some ?tok) =
           Inr (Some \<lparr>ident_username = username user, ident_id = user_id user,
                  user_role = Some (role user)\<rparr>)) \<and>
      (\<forall>t. now + 180 * 60 < t \<longrightarrow>
         get_current_user J secret t (Some ?tok) =
           Inl (HTTPException 401 ''Could not validate credentials''))"
  proof (intro impI conjI allI)
    fix t
    assume J: "jose_contract J" and "t \<le> now + 180 * 60"
    then have "jwt_decode J ?tok secret t = Inr ?c"
      by (simp add: jose_contract_def)
    with contract_token_shape [OF J, of ?c secret]
    show "get_current_user J secret t (Some ?tok) =
        Inr (Some \<lparr>ident_username = username user, ident_id = user_id user,
               user_role = Some (role user)\<rparr>)"
      by (simp add: get_current_user_def)
  next
    fix t
    assume J: "jose_contract J" and late: "now + 180 * 60 < t"
    have "c_exp ?c = Some (now + 180 * 60) \<and> now + 180 * 60 < t"
      using late by simp
    with J have "jwt_decode J ?tok secret t = Inl ExpiredSignatureError"
      unfolding jose_contract_def by blast
    with contract_token_shape [OF J, of ?c secret]
    show "get_current_user J secret t (Some ?tok) =
        Inl (HTTPException 401 ''Could not validate credentials'')"
      by (simp add: get_current_user_def)
  qed
  from r w show "\<exists>tok. create_access_token J H secret now form db = Inr (Token tok ''Bearer'') \<and>
         tok = ?tok \<and>
         (jose_contract J \<longrightarrow>
            (\<forall>t. t \<le> now + 180 * 60 \<longrightarrow>
               get_current_user J secret t (Some tok) =
                 Inr (Some \<lparr>ident_username = username user, ident_id = user_id user,
                        user_role = Some (role user)\<rparr>)) \<and>
            (\<forall>t. now + 180 * 60 < t \<longrightarrow>
               get_current_user J secret t (Some tok) =
                 Inl (HTTPException 401 ''Could not validate credentials'')))"
    by (intro exI [of _ ?tok] conjI refl)
next
  assume "authenticate_user H (form_username form) (form_password form) db = Inr AuthNone \<or>
    authenticate_user H (form_username form) (form_password form) db = Inr AuthFalse"
  then show "create_access_token J H secret now form db = Inr (Text ''Failed authentication'')"
    by (auto simp: create_access_token_def)
qed

theorem create_access_token_response_witness:
  "create_access_token plain_jose plain_hasher ''s3cret'' 1000 (login ''alice'' ''secret1'') db2 =
     Inr (Token (jwt_encode plain_jose \<lparr>c_sub = Some ''alice'', c_id = Some 1,
                   c_role = Some ''user'', c_exp = Some 11800\<rparr> ''s3cret'') ''Bearer'') \<and>
   get_current_user plain_jose ''s3cret'' 11800
     (Some (jwt_encode plain_jose \<lparr>c_sub = Some ''alice'', c_id = Some 1,
              c_role = Some ''user'', c_exp = Some 11800\<rparr> ''s3cret'')) =
     Inr (Some \<lparr>ident_username = ''alice'', ident_id = 1, user_role = Some ''user''\<rparr>) \<and>
   get_current_user plain_jose ''s3cret'' 11801
     (Some (jwt_encode plain_jose \<lparr>c_sub = Some ''alice'', c_id = Some 1,
              c_role = Some ''user'', c_exp = Some 11800\<rparr> ''s3cret'')) =
     Inl (HTTPException 401 ''Could not validate credentials'') \<and>
   create_access_token plain_jose plain_hasher ''s3cret'' 1000 (login ''alice'' ''wrong'') db2 =
     Inr (Text ''Failed authentication'') \<and>
   create_access_token plain_jose plain_hasher ''s3cret'' 1000 (login ''bob'' ''x'') db2 =
     Inr (Text ''Failed authentication'')"
proof -
  have f: "form_username (login n p) = n" "form_password (login n p) = p" for n p
    by (simp_all add: login_def)
  have u: "username alice = ''alice''" "user_id alice = 1" "role alice = ''user''"
    by (simp_all add: alice_def)
  note ok = create_access_token_response
    [of plain_hasher "login ''alice'' ''secret1''" db2 plain_jose "''s3cret''" 1000,
      THEN conjunct1, rule_format, unfolded f, OF alice_logs_in]
  note bad = create_access_token_response
    [of plain_hasher "login ''alice'' ''wrong''" db2 plain_jose "''s3cret''" 1000,
      THEN conjunct2, rule_format, unfolded f, OF disjI2, OF alice_wrong_password]
  note unknown = create_access_token_response
    [of plain_hasher "login ''bob'' ''x''" db2 plain_jose "''s3cret''" 1000,
      THEN conjunct2, rule_format, unfolded f, OF disjI1, OF bob_unknown]
  from ok plain_jose_contract show ?thesis
    by (auto simp: u bad unknown)
qed

text \<open>
  C7 fails on the todo page. With a cookie that does not decode, \<^verbatim>\<open>render_todo_page\<close>
  returns \<^verbatim>\<open>None\<close>: its handler calls \<^verbatim>\<open>redirect_to_login()\<close> without returning
  the result. The add-todo and edit-todo pages return the redirect for the same cookie.
\<close>

theorem todo_page_invalid_token_returns_none:
  "render_todo_page plain_jose ''s3cret'' 0 (Some ''garbage'') db1 = None \<and>
   add_todo_page plain_jose ''s3cret'' 0 (Some ''garbage'') db1 = Some redirect_to_login \<and>
   edit_todo_page plain_jose ''s3cret'' 0 (Some ''garbage'') db1 1 = Some redirect_to_login"
  by (simp add: render_todo_page_def add_todo_page_def edit_todo_page_def get_current_user_def
      plain_decode_garbage)

end
